theory Spec2Isabelle
  imports Main
begin

section \<open>Values of the configuration and of the element tree\<close>

text \<open>
  The repository holds two pieces of source that evaluate to a value: the object literal
  assigned to \<^verbatim>\<open>module.exports\<close> in \<^verbatim>\<open>tailwind.config.js\<close>, and the JSX expression
  returned by \<^verbatim>\<open>RootLayout\<close>. Both are built from string literals, boolean literals,
  array literals and object literals only; the one call is \<^verbatim>\<open>require("nativewind/preset")\<close>,
  whose result belongs to a package outside the repository and is kept as an opaque
  reference to the module it names. An object literal keeps its properties in source
  order, as an association list.
\<close>

datatype js_value =
    JStr string
  | JBool bool
  | JArr "js_value list"
  | JObj "(string \<times> js_value) list"
  | JRequire string

text \<open>
  A JSX element \<^verbatim>\<open><T p1=... p2=...> c1 c2 ... </T>\<close> is a description of what to
  render: the component it refers to (here by the path written in the tag, such as
  \<^verbatim>\<open>Stack.Screen\<close>), its props in source order and its child elements. Building it does
  not call the component.
\<close>

datatype element =
  Element (el_type: string) (props: "(string \<times> js_value) list") (children: "element list")

section \<open>tailwind.config.js\<close>

text \<open>
  \<^verbatim>\<open>
  module.exports = {
    content: [
      "./App.{js,jsx,ts,tsx}",
      "./app/**/*.{js,jsx,ts,tsx}",
      "./components/**/*.{js,jsx,ts,tsx}",
    ],
    presets: [require("nativewind/preset")],
    theme: {
      extend: {
        colors: {
          danger: "#dc2626",
          warning: "#f59e0b",
          safe: "#10b981",
        },
      },
    },
    plugins: [],
  };
  \<close>
\<close>

definition module_exports :: js_value where
  "module_exports =
     JObj [
       (''content'', JArr [
          JStr ''./App.{js,jsx,ts,tsx}'',
          JStr ''./app/**/*.{js,jsx,ts,tsx}'',
          JStr ''./components/**/*.{js,jsx,ts,tsx}'']),
       (''presets'', JArr [JRequire ''nativewind/preset'']),
       (''theme'', JObj [
          (''extend'', JObj [
             (''colors'', JObj [
                (''danger'', JStr ''#dc2626''),
                (''warning'', JStr ''#f59e0b''),
                (''safe'', JStr ''#10b981'')])])]),
       (''plugins'', JArr [])]"

subsection \<open>Reading a configuration value\<close>

text \<open>
  Property access \<^verbatim>\<open>v.k\<close> on a value: the property of an object literal, nothing
  (\<^verbatim>\<open>undefined\<close>) when the object has no such property or the value is no object.
\<close>

fun get_prop :: "string \<Rightarrow> js_value \<Rightarrow> js_value option" where
  "get_prop k (JObj kvs) = map_of kvs k"
| "get_prop k _ = None"

text \<open>A path of property accesses, \<^verbatim>\<open>v.k1.k2...\<close>.\<close>

fun get_path :: "string list \<Rightarrow> js_value \<Rightarrow> js_value option" where
  "get_path [] v = Some v"
| "get_path (k # ks) v = (case get_prop k v of None \<Rightarrow> None | Some w \<Rightarrow> get_path ks w)"

text \<open>The own property names of an object literal (\<^verbatim>\<open>Object.keys\<close>), in source order.\<close>

fun keys :: "js_value \<Rightarrow> string list option" where
  "keys (JObj kvs) = Some (map fst kvs)"
| "keys _ = None"

text \<open>The elements of an array literal.\<close>

fun items :: "js_value \<Rightarrow> js_value list option" where
  "items (JArr vs) = Some vs"
| "items _ = None"

text \<open>The property names found at the end of a path.\<close>

definition keys_at :: "string list \<Rightarrow> js_value \<Rightarrow> string list option" where
  "keys_at p v = (case get_path p v of None \<Rightarrow> None | Some w \<Rightarrow> keys w)"

text \<open>The array elements found at the end of a path.\<close>

definition items_at :: "string list \<Rightarrow> js_value \<Rightarrow> js_value list option" where
  "items_at p v = (case get_path p v of None \<Rightarrow> None | Some w \<Rightarrow> items w)"

subsection \<open>Reading a scan pattern\<close>

text \<open>
  The entries of \<^verbatim>\<open>content\<close> are glob patterns. A brace group \<^verbatim>\<open>{a,b,c}\<close> in a
  pattern stands for its comma-separated alternatives: the pattern matches what one of
  the patterns obtained by putting an alternative in place of the group matches. The
  patterns of this configuration have one group each, with no nesting, which is what
  \<open>expand_braces\<close> reads: the text before the first opening brace, each alternative up
  to the next closing brace, the text after it.
\<close>

fun split_on :: "char \<Rightarrow> string \<Rightarrow> string list" where
  "split_on d [] = [[]]"
| "split_on d (c # cs) =
     (if c = d then [] # split_on d cs
      else (case split_on d cs of [] \<Rightarrow> [[c]] | w # ws \<Rightarrow> (c # w) # ws))"

definition expand_braces :: "string \<Rightarrow> string list" where
  "expand_braces p =
     (let pre = takeWhile (\<lambda>c. c \<noteq> CHR ''{'') p;
          rest = dropWhile (\<lambda>c. c \<noteq> CHR ''{'') p
      in case rest of
           [] \<Rightarrow> [p]
         | _ # r \<Rightarrow>
             (let body = takeWhile (\<lambda>c. c \<noteq> CHR ''}'') r;
                  post = drop 1 (dropWhile (\<lambda>c. c \<noteq> CHR ''}'') r)
              in map (\<lambda>a. pre @ a @ post) (split_on CHR '','' body)))"

text \<open>The string of a string literal; nothing for any other value.\<close>

fun str_of :: "js_value \<Rightarrow> string option" where
  "str_of (JStr s) = Some s"
| "str_of _ = None"

subsection \<open>Hex colour literals\<close>

text \<open>
  A six-digit lowercase CSS hex colour: the character \<^verbatim>\<open>#\<close>, then exactly six
  characters, each one of \<^verbatim>\<open>0\<close>..\<^verbatim>\<open>9\<close>, \<^verbatim>\<open>a\<close>..\<^verbatim>\<open>f\<close>.
\<close>

definition is_lower_hex_digit :: "char \<Rightarrow> bool" where
  "is_lower_hex_digit c = (c \<in> set ''0123456789abcdef'')"

fun is_hex_color :: "string \<Rightarrow> bool" where
  "is_hex_color [] = False"
| "is_hex_color (c # ds) =
     (c = CHR ''#'' \<and> length ds = 6 \<and> list_all is_lower_hex_digit ds)"

section \<open>The root layout\<close>

text \<open>
  What a component can reach besides its arguments: the process environment
  (\<^verbatim>\<open>process.env\<close>), the effects it has registered with the renderer during this render
  (\<^verbatim>\<open>useEffect\<close>: a setup that may open channels and a cleanup that closes them), and
  the channels currently open on a backend client. A component is a function from this
  state to what it returns or throws, and the state it leaves behind.
\<close>

datatype effect = Effect (opens: "string list") (closes: "string list")

record runtime =
  process_env :: "string \<rightharpoonup> string"
  effects :: "effect list"
  channels :: "string list"

text \<open>A thrown value.\<close>

datatype error = Thrown js_value

text \<open>
  \<^verbatim>\<open>
  import "../global.css"; // Import at the very top

  import { Stack } from "expo-router";

  export default function RootLayout() {
    return (
      <Stack>
        <Stack.Screen name="index" options={{ headerShown: false }} />
      </Stack>
    );
  }
  \<close>
  The function takes no argument, has the one \<^verbatim>\<open>return\<close> statement, and neither reads
  nor writes anything of the runtime.
\<close>

definition RootLayout :: "runtime \<Rightarrow> (error + element) \<times> runtime" where
  "RootLayout rt =
     (Inr (Element ''Stack'' []
        [Element ''Stack.Screen''
           [(''name'', JStr ''index''),
            (''options'', JObj [(''headerShown'', JBool False)])]
           []]),
      rt)"

subsection \<open>Reading an element tree\<close>

text \<open>An element and every element below it, parents first.\<close>

fun descendants :: "element \<Rightarrow> element list" where
  "descendants (Element t ps cs) = Element t ps cs # concat (map descendants cs)"

text \<open>
  The screens a tree registers: its \<^verbatim>\<open>Stack.Screen\<close> elements, at any depth.
\<close>

definition registered_screens :: "element \<Rightarrow> element list" where
  "registered_screens t = filter (\<lambda>e. el_type e = ''Stack.Screen'') (descendants t)"

text \<open>The \<^verbatim>\<open>name\<close> prop of a screen.\<close>

definition screen_name :: "element \<Rightarrow> js_value option" where
  "screen_name s = map_of (props s) ''name''"

text \<open>An entry of the \<^verbatim>\<open>options\<close> prop of a screen.\<close>

definition screen_option :: "string \<Rightarrow> element \<Rightarrow> js_value option" where
  "screen_option k s =
     (case map_of (props s) ''options'' of None \<Rightarrow> None | Some v \<Rightarrow> get_prop k v)"

section \<open>Properties of the style configuration\<close>

text \<open>
  C2: the configuration extends the theme with a colour palette and nothing else.
  \<^verbatim>\<open>theme\<close> has the one property \<^verbatim>\<open>extend\<close>, \<^verbatim>\<open>theme.extend\<close> has the one property
  \<^verbatim>\<open>colors\<close>, and \<^verbatim>\<open>theme.extend.colors\<close> has exactly the three properties
  \<^verbatim>\<open>danger\<close>, \<^verbatim>\<open>warning\<close> and \<^verbatim>\<open>safe\<close>.
\<close>

theorem theme_extends_colors_only:
  "keys_at [''theme''] module_exports = Some [''extend''] \<and>
   keys_at [''theme'', ''extend''] module_exports = Some [''colors''] \<and>
   keys_at [''theme'', ''extend'', ''colors''] module_exports =
     Some [''danger'', ''warning'', ''safe'']"
  by (simp add: keys_at_def module_exports_def)

text \<open>
  C6: \<^verbatim>\<open>content\<close> is an array of exactly three scan patterns: the file \<^verbatim>\<open>App\<close> at the
  root, every file at any depth under \<^verbatim>\<open>app\<close>, and every file at any depth under
  \<^verbatim>\<open>components\<close>. The brace group of each pattern has the four alternatives
  \<^verbatim>\<open>js\<close>, \<^verbatim>\<open>jsx\<close>, \<^verbatim>\<open>ts\<close> and \<^verbatim>\<open>tsx\<close> in the place of the file extension, so each
  pattern stands for four patterns, one for each extension.
\<close>

theorem content_scan_paths:
  "\<exists>a b c. items_at [''content''] module_exports = Some [JStr a, JStr b, JStr c] \<and>
     a = ''./App.{js,jsx,ts,tsx}'' \<and>
     b = ''./app/**/*.{js,jsx,ts,tsx}'' \<and>
     c = ''./components/**/*.{js,jsx,ts,tsx}'' \<and>
     expand_braces a = [''./App.js'', ''./App.jsx'', ''./App.ts'', ''./App.tsx''] \<and>
     expand_braces b =
       [''./app/**/*.js'', ''./app/**/*.jsx'', ''./app/**/*.ts'', ''./app/**/*.tsx''] \<and>
     expand_braces c =
       [''./components/**/*.js'', ''./components/**/*.jsx'',
        ''./components/**/*.ts'', ''./components/**/*.tsx'']"
  by (simp add: items_at_def module_exports_def expand_braces_def)

text \<open>
  C10: each of the three colour tokens \<^verbatim>\<open>danger\<close>, \<^verbatim>\<open>warning\<close> and \<^verbatim>\<open>safe\<close> is a
  string literal made of \<^verbatim>\<open>#\<close> and exactly six lowercase hexadecimal digits.
\<close>

theorem severity_colors_are_hex:
  "\<exists>cs. get_path [''theme'', ''extend'', ''colors''] module_exports = Some (JObj cs) \<and>
     map fst cs = [''danger'', ''warning'', ''safe''] \<and>
     map (\<lambda>kv. map_option is_hex_color (str_of (snd kv))) cs =
       [Some True, Some True, Some True]"
  by (simp add: module_exports_def is_lower_hex_digit_def)

section \<open>Properties of the root layout\<close>

text \<open>
  C1: in any runtime the root layout returns a \<^verbatim>\<open>Stack\<close> element whose only child is
  a \<^verbatim>\<open>Stack.Screen\<close> element. That element is the only screen of the whole tree, and
  its options set \<^verbatim>\<open>headerShown\<close> to \<^verbatim>\<open>false\<close>.
\<close>

theorem root_layout_registers_one_screen:
  "\<exists>t s. fst (RootLayout rt) = Inr t \<and> el_type t = ''Stack'' \<and>
     registered_screens t = [s] \<and> children t = [s] \<and>
     screen_option ''headerShown'' s = Some (JBool False)"
  by (simp add: RootLayout_def registered_screens_def screen_option_def)

text \<open>
  C9: the name of the one registered screen is the string \<^verbatim>\<open>index\<close>.
\<close>

theorem screen_name_is_index:
  "\<exists>t. fst (RootLayout rt) = Inr t \<and>
     map screen_name (registered_screens t) = [Some (JStr ''index'')]"
  by (simp add: RootLayout_def registered_screens_def screen_name_def)

text \<open>
  C3: in any runtime, evaluating the root layout returns an element tree; it throws
  nothing.
\<close>

theorem root_layout_never_throws:
  "(\<exists>t. fst (RootLayout rt) = Inr t) \<and> (\<forall>e. fst (RootLayout rt) \<noteq> Inl e)"
  by (simp add: RootLayout_def)

text \<open>
  C4: what the root layout returns does not depend on the process environment. Two
  runtimes that differ in their environment only, whatever each one assigns to
  \<^verbatim>\<open>EXPO_PUBLIC_SUPABASE_URL\<close>, to \<^verbatim>\<open>EXPO_PUBLIC_SUPABASE_ANON_KEY\<close> or to any other
  variable, give the same result.
\<close>

theorem root_layout_ignores_process_env:
  "fst (RootLayout (rt\<lparr>process_env := env1\<rparr>)) =
   fst (RootLayout (rt\<lparr>process_env := env2\<rparr>))"
  by (simp add: RootLayout_def)

text \<open>
  C5: the root layout is a pure function. It leaves the runtime as it found it, so it
  registers no effect and opens or closes no channel; its result is the same in any two
  runtimes; and invoking it again in the runtime it left gives the same result and the
  same runtime.
\<close>

theorem root_layout_pure:
  "snd (RootLayout rt) = rt \<and>
   effects (snd (RootLayout rt)) = effects rt \<and>
   channels (snd (RootLayout rt)) = channels rt \<and>
   fst (RootLayout rt) = fst (RootLayout rt') \<and>
   RootLayout (snd (RootLayout rt)) = RootLayout rt"
  by (simp add: RootLayout_def)

end
